theory Spec2Isabelle
  imports Complex_Main "HOL-Library.Option_ord" "HOL-Library.Product_Lexorder"
begin

section \<open>Anomaly detection agent (backend/agents/anomaly_detection_agent.py)\<close>

subsection \<open>Data frames\<close>

text \<open>
  A transaction is a Python dict; \<open>pd.DataFrame(transactions)\<close> turns the list of dicts
  into a frame whose columns are the union of the keys. The engine reads three columns
  (\<open>amount\<close>, \<open>category\<close>, \<open>date\<close>); the other columns are carried along untouched
  and are the items of the field \<open>extra\<close>. A cell is \<open>Absent\<close> when the dict has no such
  key (NaN in the frame); \<open>Val x\<close> when the value is the number (the datetime, the
  category) \<open>x\<close>; \<open>Text x\<close> when it is a string that \<open>pd.to_numeric\<close>
  (\<open>pd.to_datetime\<close>) reads as \<open>x\<close>; \<open>Null\<close> when it is a string that they do not
  read, which \<open>errors='coerce'\<close> turns into NaN and NaT. A value \<open>None\<close> is not
  modelled. Amounts are reals and dates are seconds since the epoch. The interquartile
  rule computes in float64, with the rounding given from outside (\<open>numerics\<close> below);
  the arithmetic of the z-score and of the business rules is written over the reals.
\<close>

datatype 'a cell = Absent | Null | Val 'a | Text 'a

record 'p row =
  amount :: "real cell"
  category :: "string cell"
  date :: "int cell"
  extra :: "(string \<times> 'p) list"

text \<open>A frame is the list of its rows, each with its index label.\<close>

type_synonym 'p frame = "(nat \<times> 'p row) list"

definition DataFrame :: "'p row list \<Rightarrow> 'p frame" where
  "DataFrame rows = zip [0..<length rows] rows"

text \<open>\<open>df.empty\<close>: the frame has no row or no column, that is, no dict has a key.\<close>

definition no_keys :: "'p row \<Rightarrow> bool" where
  "no_keys r \<longleftrightarrow> amount r = Absent \<and> category r = Absent \<and> date r = Absent \<and> extra r = []"

definition empty_df :: "'p frame \<Rightarrow> bool" where
  "empty_df df = (df = [] \<or> list_all (\<lambda>(i, r). no_keys r) df)"

text \<open>A column is in \<open>df.columns\<close> when some row's dict has the key.\<close>

definition has_amount :: "'p frame \<Rightarrow> bool" where
  "has_amount df = list_ex (\<lambda>(i, r). amount r \<noteq> Absent) df"

definition has_category :: "'p frame \<Rightarrow> bool" where
  "has_category df = list_ex (\<lambda>(i, r). category r \<noteq> Absent) df"

definition has_date :: "'p frame \<Rightarrow> bool" where
  "has_date df = list_ex (\<lambda>(i, r). date r \<noteq> Absent) df"

text \<open>\<open>pd.concat([historical_df, current_df], ignore_index=True)\<close>\<close>

definition concat_ignore_index :: "'p frame \<Rightarrow> 'p frame \<Rightarrow> 'p frame" where
  "concat_ignore_index a b = DataFrame (map snd a @ map snd b)"

text \<open>\<open>current_df.iloc[idx]\<close>, called only with \<open>idx < len(current_df)\<close>.\<close>

definition iloc :: "'p frame \<Rightarrow> nat \<Rightarrow> 'p row" where
  "iloc df idx = snd (df ! idx)"

subsection \<open>Feature engineering\<close>

definition to_numeric_fillna0 :: "real cell \<Rightarrow> real cell" where
  "to_numeric_fillna0 c = (case c of Val x \<Rightarrow> Val x | Text x \<Rightarrow> Val x | _ \<Rightarrow> Val 0)"

definition to_datetime :: "int cell \<Rightarrow> int cell" where
  "to_datetime c = (case c of Val t \<Rightarrow> Val t | Text t \<Rightarrow> Val t | _ \<Rightarrow> Null)"

text \<open>
  The steps of \<open>_engineer_features\<close> on \<open>all_data\<close>: the three required columns are
  filled in when missing, then \<open>amount\<close> and \<open>date\<close> are coerced.
\<close>

definition ensure_columns :: "int \<Rightarrow> 'p frame \<Rightarrow> 'p frame" where
  "ensure_columns now df =
     (let d1 = (if \<not> has_amount df then map (\<lambda>(i, r). (i, r\<lparr>amount := Val 0\<rparr>)) df else df);
          d2 = (if \<not> has_category d1
                then map (\<lambda>(i, r). (i, r\<lparr>category := Val ''Unknown''\<rparr>)) d1 else d1);
          d3 = (if \<not> has_date d2 then map (\<lambda>(i, r). (i, r\<lparr>date := Val now\<rparr>)) d2 else d2)
      in d3)"

definition convert_types :: "'p frame \<Rightarrow> 'p frame" where
  "convert_types df =
     map (\<lambda>(i, r). (i, r\<lparr>amount := to_numeric_fillna0 (amount r),
                           date := to_datetime (date r)\<rparr>)) df"

text \<open>
  A row of \<open>features_df\<close>: the amount is a number by now, the date is a timestamp or
  NaT (\<open>None\<close>), and \<open>hour\<close> is \<open>date.dt.hour\<close> (NaN, here \<open>None\<close>, for NaT). The other
  derived columns (day of week, logarithm, rolling mean, ...) are read by the isolation
  forest only, which is a parameter of the model and gets the whole frame.
\<close>

record feat =
  f_amount :: real
  f_category :: "string cell"
  f_date :: "int option"
  f_hour :: "int option"

type_synonym features = "(nat \<times> feat) list"

definition amount_of :: "real cell \<Rightarrow> real" where
  "amount_of c = (case c of Val x \<Rightarrow> x | _ \<Rightarrow> 0)"

definition date_of :: "int cell \<Rightarrow> int option" where
  "date_of c = (case c of Val t \<Rightarrow> Some t | _ \<Rightarrow> None)"

definition hour_of :: "int option \<Rightarrow> int option" where
  "hour_of d = (case d of Some t \<Rightarrow> Some ((t div 3600) mod 24) | None \<Rightarrow> None)"

definition feat_of :: "'p row \<Rightarrow> feat" where
  "feat_of r = \<lparr>f_amount = amount_of (amount r), f_category = category r,
               f_date = date_of (date r), f_hour = hour_of (date_of (date r))\<rparr>"

text \<open>
  \<open>sort_values('date')\<close> keeps the labels and puts NaT last. The order pandas gives to
  rows of equal date is the one of its sorting routine (quicksort, which need not keep
  it); the model keeps their order, and no statement below is about rows of equal date.
\<close>

definition date_key :: "int option \<Rightarrow> nat \<times> int" where
  "date_key d = (case d of Some t \<Rightarrow> (0, t) | None \<Rightarrow> (1, 0))"

definition sort_values_date :: "features \<Rightarrow> features" where
  "sort_values_date f = sort_key (\<lambda>(i, r). date_key (f_date r)) f"

text \<open>
  \<open>_engineer_features\<close> returns \<open>features_df\<close>. When \<open>historical_df\<close> is empty,
  \<open>all_data\<close> is the object \<open>current_df\<close> itself, so filling and coercing its columns
  changes \<open>current_df\<close> for the caller: the second component is \<open>current_df\<close> as the
  caller sees it afterwards.
\<close>

definition engineer_features ::
  "int \<Rightarrow> 'p frame \<Rightarrow> 'p frame \<Rightarrow> features \<times> 'p frame" where
  "engineer_features now current_df historical_df =
     (let all_data0 = (if \<not> empty_df historical_df
                       then concat_ignore_index historical_df current_df else current_df);
          all_data = convert_types (ensure_columns now all_data0);
          features_df = map (\<lambda>(i, r). (i, feat_of r)) all_data;
          features_df' = (if length features_df > 7
                          then sort_values_date features_df else features_df)
      in (features_df',
          if \<not> empty_df historical_df then current_df else all_data))"

subsection \<open>Raw flags\<close>

datatype severity = Low | Medium | High

text \<open>
  A score is a Python float. The only division of the detectors whose divisor can be
  zero is \<open>amount / historical_95th\<close> with a positive amount, which numpy evaluates to
  \<open>inf\<close>.
\<close>

datatype score = Finite real | PosInf

record raw_anomaly =
  an_index :: nat
  an_method :: string
  an_score :: score
  an_severity :: severity

datatype exn = AttributeError | TypeError | ModelError

subsection \<open>Statistics of pandas\<close>

text \<open>
  \<open>Series.quantile(q)\<close> with linear interpolation, on a series without NaN, computed
  without rounding. For the empty series pandas gives NaN; no caller below passes one.
\<close>

definition quantile :: "real list \<Rightarrow> real \<Rightarrow> real" where
  "quantile xs q =
     (let s = sort xs; n = length s;
          h = q * real (n - 1);
          lo = nat \<lfloor>h\<rfloor>;
          hi = min (lo + 1) (n - 1)
      in s ! lo + (h - real lo) * (s ! hi - s ! lo))"

definition median :: "real list \<Rightarrow> real" where
  "median xs =
     (let s = sort xs; n = length s
      in if odd n then s ! (n div 2) else (s ! (n div 2 - 1) + s ! (n div 2)) / 2)"

definition mean :: "real list \<Rightarrow> real" where
  "mean xs = sum_list xs / real (length xs)"

text \<open>\<open>Series.std()\<close>: the sample standard deviation (\<open>ddof=1\<close>).\<close>

definition std :: "real list \<Rightarrow> real" where
  "std xs = sqrt (sum_list (map (\<lambda>x. (x - mean xs)\<^sup>2) xs) / real (length xs - 1))"

subsection \<open>The four detectors\<close>

text \<open>
  The isolation forest is scikit-learn's: \<open>forest\<close> stands for scaling, fitting and
  predicting, and gives for every row, by position, the pair of
  \<open>decision_function\<close> and \<open>predict\<close>, or raises.
\<close>

type_synonym forest = "features \<Rightarrow> exn + (real \<times> int) list"

definition isolation_forest_detection :: "forest \<Rightarrow> features \<Rightarrow> raw_anomaly list" where
  "isolation_forest_detection forest features_df =
     (if length features_df < 10 then []
      else case forest features_df of
             Inl e \<Rightarrow> []
           | Inr sp \<Rightarrow>
               map (\<lambda>(idx, (s, p)).
                      \<lparr>an_index = idx, an_method = ''isolation_forest'', an_score = Finite s,
                       an_severity = (if s < - 0.2 then High else Medium)\<rparr>)
                   (filter (\<lambda>(idx, (s, p)). p = - 1) (zip [0..<length sp] sp)))"

definition amounts :: "features \<Rightarrow> real list" where
  "amounts features_df = map (\<lambda>(i, r). f_amount r) features_df"

text \<open>
  The float64 arithmetic of the interquartile rule. \<open>fl x\<close> is the float64 that a real
  result \<open>x\<close> is rounded to, so that the float64 difference of \<open>a\<close> and \<open>b\<close> is
  \<open>fl (a - b)\<close>; \<open>series_quantile\<close> and \<open>series_median\<close> are what pandas returns for
  \<open>Series.quantile(q)\<close> and \<open>Series.median()\<close>. Overflow to \<open>inf\<close> is not modelled.
\<close>

record numerics =
  fl :: "real \<Rightarrow> real"
  series_quantile :: "real list \<Rightarrow> real \<Rightarrow> real"
  series_median :: "real list \<Rightarrow> real"

definition Q1 :: "numerics \<Rightarrow> features \<Rightarrow> real" where
  "Q1 np features_df = series_quantile np (amounts features_df) 0.25"

definition Q3 :: "numerics \<Rightarrow> features \<Rightarrow> real" where
  "Q3 np features_df = series_quantile np (amounts features_df) 0.75"

definition IQR :: "numerics \<Rightarrow> features \<Rightarrow> real" where
  "IQR np features_df = fl np (Q3 np features_df - Q1 np features_df)"

definition lower_bound :: "numerics \<Rightarrow> features \<Rightarrow> real" where
  "lower_bound np features_df = fl np (Q1 np features_df - fl np (1.5 * IQR np features_df))"

definition upper_bound :: "numerics \<Rightarrow> features \<Rightarrow> real" where
  "upper_bound np features_df = fl np (Q3 np features_df + fl np (1.5 * IQR np features_df))"

definition statistical_outlier_detection :: "numerics \<Rightarrow> features \<Rightarrow> raw_anomaly list" where
  "statistical_outlier_detection np features_df =
     (if length features_df > 4 then
        (let outliers = filter (\<lambda>(idx, r). f_amount r < lower_bound np features_df
                                         \<or> f_amount r > upper_bound np features_df)
                          features_df
         in map (\<lambda>(idx, r).
                   \<lparr>an_index = idx, an_method = ''statistical_iqr'',
                    an_score = Finite \<bar>fl np (f_amount r - series_median np (amounts features_df))\<bar>,
                    an_severity =
                      (if f_amount r > fl np (Q3 np features_df + fl np (3 * IQR np features_df))
                          \<or> f_amount r < fl np (Q1 np features_df - fl np (3 * IQR np features_df))
                       then High else Medium)\<rparr>)
                outliers)
      else [])"

definition zscore_detection :: "features \<Rightarrow> raw_anomaly list" where
  "zscore_detection features_df =
     (if length features_df > 2 then
        (let mean_amount = mean (amounts features_df);
             std_amount = std (amounts features_df)
         in if std_amount > 0 then
              (let z = (\<lambda>r. (f_amount r - mean_amount) / std_amount);
                   outliers = filter (\<lambda>(idx, r). \<bar>z r\<bar> > 3.0) features_df
               in map (\<lambda>(idx, r).
                         \<lparr>an_index = idx, an_method = ''zscore'', an_score = Finite \<bar>z r\<bar>,
                          an_severity = (if \<bar>z r\<bar> > 4 then High else Medium)\<rparr>)
                      outliers)
            else [])
      else [])"

text \<open>
  Rule 1 of the business rules reads \<open>historical_df.get('amount', [])\<close>. With the
  column it is a Series, and \<open>pd.to_numeric(..., errors='coerce').dropna()\<close> is the
  series of its numbers. Without the column it is the list \<open>[]\<close>, for which
  \<open>pd.to_numeric\<close> returns a numpy array, and \<open>.dropna()\<close> on an array raises
  AttributeError. The frame \<open>features_df\<close> always has the columns \<open>amount\<close>,
  \<open>hour\<close> and \<open>date\<close>, so the detectors' tests for them are always true and are
  not written.
\<close>

definition historical_amounts :: "'p frame \<Rightarrow> exn + real list" where
  "historical_amounts historical_df =
     (if has_amount historical_df
      then Inr (concat (map (\<lambda>(i, r). case amount r of Val x \<Rightarrow> [x] | Text x \<Rightarrow> [x] | _ \<Rightarrow> [])
                          historical_df))
      else Inl AttributeError)"

definition py_div :: "real \<Rightarrow> real \<Rightarrow> score" where
  "py_div a b = (if b = 0 then PosInf else Finite (a / b))"

definition rule_large_amount :: "features \<Rightarrow> 'p frame \<Rightarrow> exn + raw_anomaly list" where
  "rule_large_amount features_df historical_df =
     (if \<not> empty_df historical_df then
        (case historical_amounts historical_df of
           Inl e \<Rightarrow> Inl e
         | Inr hs \<Rightarrow>
             if length hs > 0 then
               (let historical_95th = quantile hs 0.95
                in Inr (map (\<lambda>(idx, r).
                          \<lparr>an_index = idx, an_method = ''business_rule_large_amount'',
                           an_score = py_div (f_amount r) historical_95th,
                           an_severity = High\<rparr>)
                        (filter (\<lambda>(idx, r). f_amount r > historical_95th * 2) features_df)))
             else Inr [])
      else Inr [])"

definition rule_unusual_time :: "features \<Rightarrow> raw_anomaly list" where
  "rule_unusual_time features_df =
     map (\<lambda>(idx, r).
            \<lparr>an_index = idx, an_method = ''business_rule_unusual_time'',
             an_score = Finite 1.0, an_severity = Medium\<rparr>)
         (filter (\<lambda>(idx, r). case f_hour r of Some h \<Rightarrow> h \<ge> 2 \<and> h \<le> 5 | None \<Rightarrow> False)
                 features_df)"

text \<open>
  \<open>diff()\<close> of the sorted dates, in minutes: the first row and every row next to a NaT
  have NaN, which is not below 5.
\<close>

fun rapid :: "(nat \<times> feat) \<Rightarrow> features \<Rightarrow> features" where
  "rapid prev [] = []"
| "rapid prev (cur # rest) =
     (case (f_date (snd prev), f_date (snd cur)) of
        (Some t0, Some t1) \<Rightarrow>
          (if real_of_int (t1 - t0) / 60 < 5 then cur # rapid cur rest else rapid cur rest)
      | _ \<Rightarrow> rapid cur rest)"

definition rule_rapid_transactions :: "features \<Rightarrow> raw_anomaly list" where
  "rule_rapid_transactions features_df =
     (if length features_df > 1 then
        (case sort_values_date features_df of
           [] \<Rightarrow> []
         | first # rest \<Rightarrow>
             map (\<lambda>(idx, r).
                    \<lparr>an_index = idx, an_method = ''business_rule_rapid_transactions'',
                     an_score = Finite 1.0, an_severity = Medium\<rparr>)
                 (rapid first rest))
      else [])"

definition business_rule_detection :: "features \<Rightarrow> 'p frame \<Rightarrow> exn + raw_anomaly list" where
  "business_rule_detection features_df historical_df =
     (case rule_large_amount features_df historical_df of
        Inl e \<Rightarrow> Inl e
      | Inr a1 \<Rightarrow> Inr (a1 @ rule_unusual_time features_df @ rule_rapid_transactions features_df))"

text \<open>
  \<open>_run_multiple_detection_methods\<close> fills a dict with four keys, in this order. Only
  the isolation forest catches its own exceptions; an exception of another detector
  leaves the function.
\<close>

definition run_multiple_detection_methods ::
  "numerics \<Rightarrow> forest \<Rightarrow> features \<Rightarrow> 'p frame \<Rightarrow> exn + (string \<times> raw_anomaly list) list" where
  "run_multiple_detection_methods np forest features_df historical_df =
     (let isolation_anomalies = isolation_forest_detection forest features_df;
          statistical_anomalies = statistical_outlier_detection np features_df;
          zscore_anomalies = zscore_detection features_df
      in case business_rule_detection features_df historical_df of
           Inl e \<Rightarrow> Inl e
         | Inr business_anomalies \<Rightarrow>
             Inr [(''isolation_forest'', isolation_anomalies),
                  (''statistical'', statistical_anomalies),
                  (''zscore'', zscore_anomalies),
                  (''business_rules'', business_anomalies)])"

subsection \<open>Consolidation\<close>

text \<open>
  \<open>anomaly_by_index\<close> is a dict, which keeps its keys in the order of their insertion:
  an association list with distinct keys, a new key going to the end. The \<open>reasons\<close>
  (formatted text) are left out of the entries.
\<close>

record 'p entry =
  e_transaction_data :: "'p row"
  e_detection_methods :: "string list"
  e_scores :: "score list"
  e_max_severity :: severity

definition severity_order :: "severity \<Rightarrow> nat" where
  "severity_order s = (case s of Low \<Rightarrow> 0 | Medium \<Rightarrow> 1 | High \<Rightarrow> 2)"

definition update_entry ::
  "nat \<Rightarrow> ('p entry \<Rightarrow> 'p entry) \<Rightarrow> (nat \<times> 'p entry) list \<Rightarrow> (nat \<times> 'p entry) list" where
  "update_entry idx f by_index = map (\<lambda>(k, e). if k = idx then (k, f e) else (k, e)) by_index"

definition record_anomaly :: "raw_anomaly \<Rightarrow> 'p entry \<Rightarrow> 'p entry" where
  "record_anomaly anomaly e =
     e\<lparr>e_detection_methods := e_detection_methods e @ [an_method anomaly],
       e_scores := e_scores e @ [an_score anomaly],
       e_max_severity :=
         (if severity_order (an_severity anomaly) > severity_order (e_max_severity e)
          then an_severity anomaly else e_max_severity e)\<rparr>"

definition add_anomaly ::
  "'p frame \<Rightarrow> (nat \<times> 'p entry) list \<Rightarrow> raw_anomaly \<Rightarrow> (nat \<times> 'p entry) list" where
  "add_anomaly current_df by_index anomaly =
     (let idx = an_index anomaly;
          by_index' =
            (if idx \<notin> set (map fst by_index) \<and> idx < length current_df
             then by_index @ [(idx, \<lparr>e_transaction_data = iloc current_df idx,
                                    e_detection_methods = [], e_scores = [],
                                    e_max_severity = Low\<rparr>)]
             else by_index)
      in if idx \<in> set (map fst by_index')
         then update_entry idx (record_anomaly anomaly) by_index'
         else by_index')"

text \<open>The two nested loops over the methods and over each method's anomalies.\<close>

definition collect_by_index ::
  "(string \<times> raw_anomaly list) list \<Rightarrow> 'p frame \<Rightarrow> (nat \<times> 'p entry) list" where
  "collect_by_index anomaly_results current_df =
     fold (\<lambda>anomaly by_index. add_anomaly current_df by_index anomaly)
          (concat (map snd anomaly_results)) []"

text \<open>\<open>np.mean(scores) if scores else 0\<close>\<close>

definition the_finite :: "score \<Rightarrow> real" where
  "the_finite s = (case s of Finite x \<Rightarrow> x | PosInf \<Rightarrow> 0)"

definition np_mean :: "score list \<Rightarrow> score" where
  "np_mean scores =
     (if scores = [] then Finite 0
      else if PosInf \<in> set scores then PosInf
      else Finite (sum_list (map the_finite scores) / real (length scores)))"

record 'p anomaly =
  transaction_index :: nat
  transaction_data :: "'p row"
  detection_methods :: "string list"
  composite_score :: score
  confidence :: real
  severity :: severity
  method_count :: nat

definition to_anomaly :: "nat \<Rightarrow> nat \<times> 'p entry \<Rightarrow> 'p anomaly" where
  "to_anomaly n_methods ie =
     (case ie of (idx, anomaly_data) \<Rightarrow>
        \<lparr>transaction_index = idx,
         transaction_data = e_transaction_data anomaly_data,
         detection_methods = e_detection_methods anomaly_data,
         composite_score = np_mean (e_scores anomaly_data),
         confidence = real (length (e_detection_methods anomaly_data)) / real n_methods,
         severity = e_max_severity anomaly_data,
         method_count = length (e_detection_methods anomaly_data)\<rparr>)"

text \<open>The list before it is sorted, in the order of the dict.\<close>

definition unsorted_anomalies ::
  "(string \<times> raw_anomaly list) list \<Rightarrow> 'p frame \<Rightarrow> 'p anomaly list" where
  "unsorted_anomalies anomaly_results current_df =
     map (to_anomaly (length anomaly_results)) (collect_by_index anomaly_results current_df)"

text \<open>
  \<open>list.sort(key=..., reverse=True)\<close> is a stable sort into descending order: a stable
  ascending sort by a key that reverses the order of the scores (\<open>inf\<close> first).
\<close>

definition reverse_key :: "score \<Rightarrow> real option" where
  "reverse_key s = (case s of PosInf \<Rightarrow> None | Finite x \<Rightarrow> Some (- x))"

definition consolidate_anomalies ::
  "(string \<times> raw_anomaly list) list \<Rightarrow> 'p frame \<Rightarrow> 'p anomaly list" where
  "consolidate_anomalies anomaly_results current_df =
     sort_key (\<lambda>x. reverse_key (composite_score x))
       (unsorted_anomalies anomaly_results current_df)"

subsection \<open>The entry point\<close>

text \<open>
  \<open>_generate_insights\<close> builds texts, which are not modelled, but it can raise: it
  takes the \<open>amount\<close> of the data of every anomaly (when \<open>current_df\<close> has the column)
  and calls \<open>sum\<close> on them, which raises TypeError on a string. NaN adds up.
\<close>

definition summable :: "real cell \<Rightarrow> bool" where
  "summable c = (case c of Null \<Rightarrow> False | Text x \<Rightarrow> False | _ \<Rightarrow> True)"

definition generate_insights :: "'p anomaly list \<Rightarrow> 'p frame \<Rightarrow> exn + unit" where
  "generate_insights anomalies current_df =
     (if anomalies = [] then Inr ()
      else
        (let anomaly_amounts =
               (if has_amount current_df
                then map (\<lambda>a. amount (transaction_data a)) anomalies else [])
         in if list_all summable anomaly_amounts then Inr () else Inl TypeError))"

text \<open>
  What \<open>detect_anomalies\<close> returns: the short report for an empty batch, the full
  report (without its texts), or the report of an exception.
\<close>

datatype 'p report =
    NoTransactions
  | Report (anomalies_detected: nat) (anomalies: "'p anomaly list") (methods_run: "string list")
  | ErrorReport exn

definition detect_anomalies ::
  "numerics \<Rightarrow> forest \<Rightarrow> int \<Rightarrow> 'p row list \<Rightarrow> 'p row list \<Rightarrow> 'p report" where
  "detect_anomalies np forest now transactions historical_data =
     (let current_df = DataFrame transactions;
          historical_df = DataFrame historical_data
      in if empty_df current_df then NoTransactions
         else
           (case engineer_features now current_df historical_df of
              (features_df, current_df') \<Rightarrow>
                (case run_multiple_detection_methods np forest features_df historical_df of
                   Inl e \<Rightarrow> ErrorReport e
                 | Inr anomaly_results \<Rightarrow>
                     (let consolidated_anomalies =
                            consolidate_anomalies anomaly_results current_df'
                      in case generate_insights consolidated_anomalies current_df' of
                           Inl e \<Rightarrow> ErrorReport e
                         | Inr u \<Rightarrow>
                             Report (length consolidated_anomalies) consolidated_anomalies
                               (map fst anomaly_results)))))"

section \<open>Real-time synchronisation service (backend/services/realtime_sync.py)\<close>

subsection \<open>Events and payloads\<close>

datatype EventType =
    TRANSACTION_ADDED | TRANSACTION_UPDATED | TRANSACTION_DELETED | RECEIPT_PROCESSED
  | GOAL_CREATED | GOAL_UPDATED | GOAL_PROGRESS_UPDATED | BUDGET_UPDATED
  | MILESTONE_ACHIEVED | AUTO_SAVE_TRIGGERED

fun event_value :: "EventType \<Rightarrow> string" where
  "event_value TRANSACTION_ADDED = ''transaction_added''"
| "event_value TRANSACTION_UPDATED = ''transaction_updated''"
| "event_value TRANSACTION_DELETED = ''transaction_deleted''"
| "event_value RECEIPT_PROCESSED = ''receipt_processed''"
| "event_value GOAL_CREATED = ''goal_created''"
| "event_value GOAL_UPDATED = ''goal_updated''"
| "event_value GOAL_PROGRESS_UPDATED = ''goal_progress_updated''"
| "event_value BUDGET_UPDATED = ''budget_updated''"
| "event_value MILESTONE_ACHIEVED = ''milestone_achieved''"
| "event_value AUTO_SAVE_TRIGGERED = ''auto_save_triggered''"

text \<open>
  A payload is a \<open>Dict[str, Any]\<close>: the values are the Python values that JSON has. A
  dict is the list of its items, with distinct keys.
\<close>

datatype pyval =
    PNone | PBool bool | PNum real | PStr string
  | PList "pyval list" | PDict "(string \<times> pyval) list"

type_synonym pydict = "(string \<times> pyval) list"

text \<open>The truth value of a Python value, as \<open>if x\<close> and \<open>x and y\<close> test it.\<close>

fun truthy :: "pyval \<Rightarrow> bool" where
  "truthy PNone = False"
| "truthy (PBool b) = b"
| "truthy (PNum x) = (x \<noteq> 0)"
| "truthy (PStr s) = (s \<noteq> [])"
| "truthy (PList xs) = (xs \<noteq> [])"
| "truthy (PDict kvs) = (kvs \<noteq> [])"

text \<open>\<open>d.get(key, default)\<close>; \<open>d.get(key)\<close> has the default \<open>None\<close>.\<close>

definition dict_get :: "pydict \<Rightarrow> string \<Rightarrow> pyval \<Rightarrow> pyval" where
  "dict_get d k dflt = (case map_of d k of Some v \<Rightarrow> v | None \<Rightarrow> dflt)"

text \<open>Calling \<open>.get\<close> on a value that is not a dict raises AttributeError.\<close>

definition get_method :: "pyval \<Rightarrow> exn + pydict" where
  "get_method v = (case v of PDict d \<Rightarrow> Inr d | _ \<Rightarrow> Inl AttributeError)"

record SyncEvent =
  event_id :: string
  event_type :: EventType
  user_id :: string
  data :: pydict
  timestamp :: int
  processed :: bool
  related_entities :: "string list option"

text \<open>
  What the service takes from outside: \<open>str()\<close> of a value (in the f-string),
  \<open>datetime.isoformat\<close>, and the successive results of \<open>uuid.uuid4()\<close> and of
  \<open>datetime.now()\<close>.
\<close>

record env =
  py_str :: "pyval \<Rightarrow> string"
  isoformat :: "int \<Rightarrow> string"
  uuid4 :: "nat \<Rightarrow> string"
  clock :: "nat \<Rightarrow> int"

definition or_empty :: "string list option \<Rightarrow> string list" where
  "or_empty r = (case r of None \<Rightarrow> [] | Some l \<Rightarrow> l)"

definition to_dict :: "env \<Rightarrow> SyncEvent \<Rightarrow> pyval" where
  "to_dict env e =
     PDict [(''id'', PStr (event_id e)),
            (''event_type'', PStr (event_value (event_type e))),
            (''user_id'', PStr (user_id e)),
            (''data'', PDict (data e)),
            (''timestamp'', PStr (isoformat env (timestamp e))),
            (''processed'', PBool (processed e)),
            (''related_entities'', PList (map PStr (or_empty (related_entities e))))]"

subsection \<open>The service\<close>

text \<open>
  A subscriber callback and a WebSocket are objects of the caller. The model knows of a
  callback whether it raises on an event, and of a socket whether \<open>send_text\<close> raises
  on a message; what else they do is outside the service. \<open>json.dumps\<close> is left
  abstract: a socket is handed the message itself.
\<close>

record callback =
  cb_id :: nat
  cb_raises :: "SyncEvent \<Rightarrow> bool"

record websocket =
  ws_id :: nat
  ws_fails :: "pyval \<Rightarrow> bool"

text \<open>
  What an observer of the service sees: a callback called (and whether it raised), a
  message handed to a socket (and whether sending raised), the error logged by
  \<open>_handle_event\<close>, and an event leaving \<open>_handle_event\<close>.
\<close>

datatype effect =
    Notified nat SyncEvent bool
  | Sent nat pyval bool
  | HandlerError string
  | Handled SyncEvent

record bus =
  event_queue :: "SyncEvent list"
  subscribers :: "string \<rightharpoonup> callback list"
  active_connections :: "string \<rightharpoonup> websocket list"
  running :: bool
  uuid_calls :: nat
  clock_calls :: nat
  trace :: "effect list"

definition init :: bus where
  "init = \<lparr>event_queue = [], subscribers = Map.empty, active_connections = Map.empty,
          running = False, uuid_calls = 0, clock_calls = 0, trace = []\<rparr>"

text \<open>
  \<open>start\<close> creates the consumer task and \<open>stop\<close> cancels it; here they set the flag
  that lets the consumer step run.
\<close>

definition start :: "bus \<Rightarrow> bus" where
  "start s = (if running s then s else s\<lparr>running := True\<rparr>)"

definition stop :: "bus \<Rightarrow> bus" where
  "stop s = s\<lparr>running := False\<rparr>"

definition emit_event ::
  "env \<Rightarrow> bus \<Rightarrow> EventType \<Rightarrow> string \<Rightarrow> pydict \<Rightarrow> string list option \<Rightarrow> bus" where
  "emit_event env s ty uid d rel =
     (let event = \<lparr>event_id = uuid4 env (uuid_calls s), event_type = ty, user_id = uid,
                   data = d, timestamp = clock env (clock_calls s), processed = False,
                   related_entities = Some (or_empty rel)\<rparr>
      in s\<lparr>event_queue := event_queue s @ [event],
           uuid_calls := uuid_calls s + 1, clock_calls := clock_calls s + 1\<rparr>)"

definition subscribe :: "bus \<Rightarrow> EventType \<Rightarrow> callback \<Rightarrow> bus" where
  "subscribe s ty cb =
     (let event_key = event_value ty;
          old = (case subscribers s event_key of None \<Rightarrow> [] | Some cbs \<Rightarrow> cbs)
      in s\<lparr>subscribers := (subscribers s)(event_key \<mapsto> old @ [cb])\<rparr>)"

definition add_websocket_connection :: "bus \<Rightarrow> string \<Rightarrow> websocket \<Rightarrow> bus" where
  "add_websocket_connection s uid ws =
     (let old = (case active_connections s uid of None \<Rightarrow> [] | Some l \<Rightarrow> l)
      in s\<lparr>active_connections := (active_connections s)(uid \<mapsto> old @ [ws])\<rparr>)"

text \<open>\<open>list.remove\<close> takes out the first equal element; its ValueError is caught.\<close>

definition remove_websocket_connection :: "bus \<Rightarrow> string \<Rightarrow> websocket \<Rightarrow> bus" where
  "remove_websocket_connection s uid ws =
     (case active_connections s uid of
        None \<Rightarrow> s
      | Some l \<Rightarrow>
          if ws \<in> set l then
            (if remove1 ws l = []
             then s\<lparr>active_connections := (active_connections s)(uid := None)\<rparr>
             else s\<lparr>active_connections := (active_connections s)(uid \<mapsto> remove1 ws l)\<rparr>)
          else s)"

subsection \<open>Handlers of the event kinds\<close>

text \<open>\<open>datetime.now()\<close> reads the clock once more.\<close>

definition datetime_now :: "env \<Rightarrow> bus \<Rightarrow> int \<times> bus" where
  "datetime_now env s = (clock env (clock_calls s), s\<lparr>clock_calls := clock_calls s + 1\<rparr>)"

definition handle_receipt_processed :: "env \<Rightarrow> bus \<Rightarrow> SyncEvent \<Rightarrow> exn + bus" where
  "handle_receipt_processed env s event =
     (let receipt_data = data event
      in if truthy (dict_get receipt_data ''success'' PNone)
            \<and> truthy (dict_get receipt_data ''parsed_data'' PNone)
         then
           (case get_method (dict_get receipt_data ''parsed_data'' PNone) of
              Inl e \<Rightarrow> Inl e
            | Inr parsed_data \<Rightarrow>
                (case datetime_now env s of (t, s1) \<Rightarrow>
                   (let transaction_data =
                          [(''amount'', dict_get parsed_data ''total'' (PNum 0)),
                           (''category'', dict_get parsed_data ''category'' (PStr ''Unknown'')),
                           (''description'',
                              PStr (''Receipt from ''
                                    @ py_str env (dict_get parsed_data ''vendor'' (PStr ''Unknown'')))),
                           (''date'', dict_get parsed_data ''date'' (PStr (isoformat env t))),
                           (''type'', PStr ''expense''),
                           (''receipt_id'', dict_get receipt_data ''receipt_id'' PNone),
                           (''receipt_url'', dict_get receipt_data ''receipt_url'' PNone)]
                    in Inr (emit_event env s1 TRANSACTION_ADDED (user_id event) transaction_data
                              (Some [''budget'', ''goal''])))))
         else Inr s)"

definition update_budget_from_transaction :: "env \<Rightarrow> bus \<Rightarrow> string \<Rightarrow> pydict \<Rightarrow> bus" where
  "update_budget_from_transaction env s uid transaction =
     (if dict_get transaction ''type'' PNone = PStr ''expense'' then
        emit_event env s BUDGET_UPDATED uid
          [(''category'', dict_get transaction ''category'' (PStr ''Unknown'')),
           (''amount_spent'', dict_get transaction ''amount'' (PNum 0)),
           (''transaction_id'', dict_get transaction ''id'' PNone)]
          None
      else s)"

definition update_goal_progress_from_transaction ::
  "env \<Rightarrow> bus \<Rightarrow> string \<Rightarrow> pydict \<Rightarrow> bus" where
  "update_goal_progress_from_transaction env s uid transaction =
     (if dict_get transaction ''category'' PNone = PStr ''Savings''
         \<or> dict_get transaction ''type'' PNone = PStr ''income'' then
        emit_event env s GOAL_PROGRESS_UPDATED uid
          [(''amount_added'', dict_get transaction ''amount'' (PNum 0)),
           (''transaction_id'', dict_get transaction ''id'' PNone),
           (''source'', PStr ''transaction'')]
          None
      else s)"

text \<open>\<open>_check_spending_anomalies\<close> only logs.\<close>

definition handle_transaction_added :: "env \<Rightarrow> bus \<Rightarrow> SyncEvent \<Rightarrow> bus" where
  "handle_transaction_added env s event =
     (let transaction = data event;
          s1 = update_budget_from_transaction env s (user_id event) transaction
      in if dict_get transaction ''type'' PNone = PStr ''income''
            \<or> dict_get transaction ''category'' PNone = PStr ''Savings''
         then update_goal_progress_from_transaction env s1 (user_id event) transaction
         else s1)"

text \<open>\<open>_update_budget_from_goal_progress\<close> only logs.\<close>

definition handle_goal_progress_updated :: "env \<Rightarrow> bus \<Rightarrow> SyncEvent \<Rightarrow> bus" where
  "handle_goal_progress_updated env s event =
     (let goal_data = data event
      in if truthy (dict_get goal_data ''milestone_achieved'' PNone) then
           emit_event env s MILESTONE_ACHIEVED (user_id event)
             [(''goal_id'', dict_get goal_data ''goal_id'' PNone),
              (''milestone'', dict_get goal_data ''milestone_achieved'' PNone),
              (''celebration_message'', dict_get goal_data ''celebration_message'' PNone)]
             None
         else s)"

text \<open>\<open>_update_goal_timelines_from_budget\<close> only logs.\<close>

definition handle_budget_updated :: "env \<Rightarrow> bus \<Rightarrow> SyncEvent \<Rightarrow> bus" where
  "handle_budget_updated env s event = s"

definition process_event_by_type :: "env \<Rightarrow> bus \<Rightarrow> SyncEvent \<Rightarrow> exn + bus" where
  "process_event_by_type env s event =
     (if event_type event = RECEIPT_PROCESSED then handle_receipt_processed env s event
      else if event_type event = TRANSACTION_ADDED then Inr (handle_transaction_added env s event)
      else if event_type event = GOAL_PROGRESS_UPDATED
        then Inr (handle_goal_progress_updated env s event)
      else if event_type event = BUDGET_UPDATED then Inr (handle_budget_updated env s event)
      else Inr s)"

subsection \<open>The stages of \<open>_handle_event\<close>\<close>

text \<open>Every callback of the kind is awaited inside its own \<open>try\<close>.\<close>

definition subscribers_of :: "bus \<Rightarrow> SyncEvent \<Rightarrow> callback list" where
  "subscribers_of s event =
     (case subscribers s (event_value (event_type event)) of None \<Rightarrow> [] | Some cbs \<Rightarrow> cbs)"

definition notify_subscribers :: "bus \<Rightarrow> SyncEvent \<Rightarrow> bus" where
  "notify_subscribers s event =
     s\<lparr>trace := trace s
          @ map (\<lambda>cb. Notified (cb_id cb) event (cb_raises cb event)) (subscribers_of s event)\<rparr>"

definition connections_of :: "bus \<Rightarrow> string \<Rightarrow> websocket list" where
  "connections_of s uid = (case active_connections s uid of None \<Rightarrow> [] | Some l \<Rightarrow> l)"

definition wire_message :: "env \<Rightarrow> SyncEvent \<Rightarrow> pyval" where
  "wire_message env event = PDict [(''type'', PStr ''sync_event''), (''event'', to_dict env event)]"

text \<open>
  Every socket of the user is sent the message inside its own \<open>try\<close>; the sockets
  whose sending raised are removed afterwards.
\<close>

definition send_realtime_updates :: "env \<Rightarrow> bus \<Rightarrow> SyncEvent \<Rightarrow> bus" where
  "send_realtime_updates env s event =
     (case active_connections s (user_id event) of
        None \<Rightarrow> s
      | Some conns \<Rightarrow>
          (let message = wire_message env event;
               disconnected = filter (\<lambda>ws. ws_fails ws message) conns;
               s1 = s\<lparr>trace := trace s
                        @ map (\<lambda>ws. Sent (ws_id ws) message (ws_fails ws message)) conns\<rparr>
           in fold (\<lambda>ws st. remove_websocket_connection st (user_id event) ws) disconnected s1))"

text \<open>
  \<open>_update_related_entities\<close> calls \<open>_update_entity\<close>, which only logs. The four calls
  are in one \<open>try\<close>, whose \<open>except Exception\<close> logs the error: an exception of the first
  call skips what follows it. The second component is the event object afterwards.
\<close>

definition handle_event :: "env \<Rightarrow> bus \<Rightarrow> SyncEvent \<Rightarrow> bus \<times> SyncEvent" where
  "handle_event env s event =
     (case process_event_by_type env s event of
        Inl e \<Rightarrow> (s\<lparr>trace := trace s @ [HandlerError (event_id event)]\<rparr>, event)
      | Inr s1 \<Rightarrow>
          (let s2 = notify_subscribers s1 event;
               s3 = send_realtime_updates env s2 event
           in (s3, event\<lparr>processed := True\<rparr>)))"

text \<open>
  One turn of the loop of \<open>_process_events\<close>: the timeout of an empty queue goes to the
  next turn, an event is taken from the front and handled.
\<close>

definition consume :: "env \<Rightarrow> bus \<Rightarrow> bus" where
  "consume env s =
     (case event_queue s of
        [] \<Rightarrow> s
      | event # rest \<Rightarrow>
          (case handle_event env (s\<lparr>event_queue := rest\<rparr>) event of
             (s', event') \<Rightarrow> s'\<lparr>trace := trace s' @ [Handled event']\<rparr>))"

text \<open>The loop runs as long as the service is running: \<open>n\<close> bounds the turns looked at.\<close>

fun process_events :: "env \<Rightarrow> nat \<Rightarrow> bus \<Rightarrow> bus" where
  "process_events env 0 s = s"
| "process_events env (Suc n) s = (if running s then process_events env n (consume env s) else s)"

section \<open>Notions of the specification and sample inputs\<close>

subsection \<open>Anomaly detection\<close>

text \<open>The order of the scores, \<open>inf\<close> above every number.\<close>

definition score_ge :: "score \<Rightarrow> score \<Rightarrow> bool" where
  "score_ge a b =
     (case a of PosInf \<Rightarrow> True
      | Finite x \<Rightarrow> (case b of PosInf \<Rightarrow> False | Finite y \<Rightarrow> x \<ge> y))"

text \<open>The elements of a list in the order in which each is met first.\<close>

primrec first_seen :: "nat list \<Rightarrow> nat list" where
  "first_seen [] = []"
| "first_seen (x # xs) = x # filter (\<lambda>y. y \<noteq> x) (first_seen xs)"

definition amount_row :: "real \<Rightarrow> feat" where
  "amount_row a = \<lparr>f_amount = a, f_category = Absent, f_date = None, f_hour = None\<rparr>"

text \<open>
  Arithmetic without rounding: what float64 does as long as every result is a float64
  itself, as it is on the small integers of the batches below.
\<close>

definition exact :: numerics where
  "exact = \<lparr>fl = (\<lambda>x. x), series_quantile = quantile, series_median = median\<rparr>"

text \<open>Five amounts with quartiles 2 and 4: 6 is above 5 and below 7.\<close>

definition iqr_batch :: features where
  "iqr_batch = [(0, amount_row 1), (1, amount_row 2), (2, amount_row 3), (3, amount_row 4),
                (4, amount_row 6)]"

text \<open>The same with an amount far out.\<close>

definition outlier_batch :: features where
  "outlier_batch = [(0, amount_row 1), (1, amount_row 2), (2, amount_row 3), (3, amount_row 4),
                    (4, amount_row 100)]"

text \<open>A transaction \<open>{'amount': a, 'date': d}\<close>.\<close>

definition tx :: "real \<Rightarrow> int \<Rightarrow> unit row" where
  "tx a d = \<lparr>amount = Val a, category = Absent, date = Val d, extra = []\<rparr>"

text \<open>Two transactions of 10.00 on 1970-01-01, at 03:00:00 and at 03:01:00.\<close>

definition night_pair :: "unit row list" where
  "night_pair = [tx 10 10800, tx 10 10860]"

text \<open>A transaction at 12:00:00 and one at 03:00:00 of the same day.\<close>

definition noon_tx :: "unit row" where
  "noon_tx = tx 10 43200"

definition night_tx :: "unit row" where
  "night_tx = tx 10 10800"

text \<open>A historical transaction \<open>{'category': 'Food'}\<close>, without an amount.\<close>

definition no_amount_tx :: "unit row" where
  "no_amount_tx = \<lparr>amount = Absent, category = Val ''Food'', date = Absent, extra = []\<rparr>"

text \<open>A transaction \<open>{'amount': '10', 'date': d}\<close> at 03:30:00, its amount a string.\<close>

definition text_amount_tx :: "unit row" where
  "text_amount_tx = \<lparr>amount = Text 10, category = Absent, date = Val 12600, extra = []\<rparr>"

text \<open>A transaction \<open>{'amount': 'n/a', 'date': d}\<close>, whose amount is not a number.\<close>

definition bad_amount_tx :: "unit row" where
  "bad_amount_tx = \<lparr>amount = Null, category = Absent, date = Val 10800, extra = []\<rparr>"

text \<open>
  Five raw flags of index 0: one of the interquartile rule, one of the z-score and three
  of the business rules.
\<close>

definition five_flags :: "(string \<times> raw_anomaly list) list" where
  "five_flags =
     [(''isolation_forest'', []),
      (''statistical'',
         [\<lparr>an_index = 0, an_method = ''statistical_iqr'', an_score = Finite 990,
           an_severity = High\<rparr>]),
      (''zscore'',
         [\<lparr>an_index = 0, an_method = ''zscore'', an_score = Finite 4.8, an_severity = High\<rparr>]),
      (''business_rules'',
         [\<lparr>an_index = 0, an_method = ''business_rule_large_amount'', an_score = Finite 100,
           an_severity = High\<rparr>,
          \<lparr>an_index = 0, an_method = ''business_rule_unusual_time'', an_score = Finite 1,
           an_severity = Medium\<rparr>,
          \<lparr>an_index = 0, an_method = ''business_rule_rapid_transactions'',
           an_score = Finite 1, an_severity = Medium\<rparr>])]"

subsection \<open>Synchronisation service\<close>

text \<open>
  A call that only emits events: the queue grows by events that are not processed, and
  nothing else an observer sees changes.
\<close>

definition emits_only :: "bus \<Rightarrow> bus \<Rightarrow> bool" where
  "emits_only s s1 \<longleftrightarrow>
     (\<exists>new. event_queue s1 = event_queue s @ new \<and> list_all (\<lambda>e. \<not> processed e) new)
     \<and> trace s1 = trace s \<and> subscribers s1 = subscribers s
     \<and> active_connections s1 = active_connections s \<and> running s1 = running s"

text \<open>The \<open>processed\<close> field of the event object of a wire message.\<close>

definition wire_processed :: "pyval \<Rightarrow> pyval option" where
  "wire_processed m =
     (case m of
        PDict kvs \<Rightarrow> (case map_of kvs ''event'' of
                        Some (PDict ev) \<Rightarrow> map_of ev ''processed''
                      | _ \<Rightarrow> None)
      | _ \<Rightarrow> None)"

definition sent_unprocessed :: "effect \<Rightarrow> bool" where
  "sent_unprocessed x =
     (case x of Sent c m f \<Rightarrow> wire_processed m = Some (PBool False) | _ \<Rightarrow> True)"

definition bus_inv :: "bus \<Rightarrow> bool" where
  "bus_inv s \<longleftrightarrow>
     list_all (\<lambda>e. \<not> processed e) (event_queue s) \<and> list_all sent_unprocessed (trace s)"

text \<open>
  The states of a service: it is created, and then its methods are called in any order
  with any arguments, while the consumer task, once started, takes its turns.
\<close>

inductive reachable :: "env \<Rightarrow> bus \<Rightarrow> bool" for env :: env where
  r_init: "reachable env init"
| r_start: "reachable env s \<Longrightarrow> reachable env (start s)"
| r_stop: "reachable env s \<Longrightarrow> reachable env (stop s)"
| r_emit: "reachable env s \<Longrightarrow> reachable env (emit_event env s ty uid d rel)"
| r_subscribe: "reachable env s \<Longrightarrow> reachable env (subscribe s ty cb)"
| r_add: "reachable env s \<Longrightarrow> reachable env (add_websocket_connection s uid ws)"
| r_remove: "reachable env s \<Longrightarrow> reachable env (remove_websocket_connection s uid ws)"
| r_consume: "reachable env s \<Longrightarrow> running s \<Longrightarrow> reachable env (consume env s)"

definition sample_env :: env where
  "sample_env =
     \<lparr>py_str = (\<lambda>v. case v of PStr s \<Rightarrow> s | _ \<Rightarrow> ''?''),
      isoformat = (\<lambda>t. ''1970-01-01T00:00:00''),
      uuid4 = (\<lambda>n. replicate (Suc n) (CHR ''u'')),
      clock = (\<lambda>n. int n)\<rparr>"

text \<open>A callback that raises, a socket whose sending raises and one whose does not.\<close>

definition listener :: callback where
  "listener = \<lparr>cb_id = 1, cb_raises = (\<lambda>e. True)\<rparr>"

definition broken_socket :: websocket where
  "broken_socket = \<lparr>ws_id = 8, ws_fails = (\<lambda>m. True)\<rparr>"

definition socket :: websocket where
  "socket = \<lparr>ws_id = 7, ws_fails = (\<lambda>m. False)\<rparr>"

text \<open>
  A service with the callback subscribed to receipts and to created goals, and the two
  sockets of user \<open>u1\<close>.
\<close>

definition sample_bus :: bus where
  "sample_bus =
     add_websocket_connection
       (add_websocket_connection
          (subscribe (subscribe init RECEIPT_PROCESSED listener) GOAL_CREATED listener)
          ''u1'' broken_socket)
       ''u1'' socket"

definition receipt_event :: "pydict \<Rightarrow> SyncEvent" where
  "receipt_event d =
     \<lparr>event_id = ''e1'', event_type = RECEIPT_PROCESSED, user_id = ''u1'', data = d,
      timestamp = 0, processed = False, related_entities = Some [''transaction'', ''budget'']\<rparr>"

definition parsed_ok :: pydict where
  "parsed_ok = [(''total'', PNum 42.5), (''category'', PStr ''Groceries''),
                (''vendor'', PStr ''Acme''), (''date'', PStr ''2024-01-05'')]"

definition receipt_ok :: SyncEvent where
  "receipt_ok = receipt_event [(''success'', PBool True), (''parsed_data'', PDict parsed_ok)]"

text \<open>Parsed data without a total.\<close>

definition parsed_no_total :: pydict where
  "parsed_no_total = [(''category'', PStr ''Groceries''), (''vendor'', PStr ''Acme''),
                      (''date'', PStr ''2024-01-05'')]"

definition receipt_no_total :: SyncEvent where
  "receipt_no_total =
     receipt_event [(''success'', PBool True), (''parsed_data'', PDict parsed_no_total)]"

definition receipt_failed :: SyncEvent where
  "receipt_failed = receipt_event [(''success'', PBool False)]"

text \<open>A receipt whose \<open>parsed_data\<close> is the raw text, not a dict.\<close>

definition receipt_text :: SyncEvent where
  "receipt_text =
     receipt_event [(''success'', PBool True), (''parsed_data'', PStr ''TOTAL 42.50'')]"

text \<open>The events that left \<open>_handle_event\<close>, in their order.\<close>

definition handled_events :: "effect list \<Rightarrow> SyncEvent list" where
  "handled_events t = concat (map (\<lambda>x. case x of Handled e \<Rightarrow> [e] | _ \<Rightarrow> []) t)"

text \<open>An event after \<open>_handle_event\<close>: as it was, or marked processed.\<close>

definition outcome_of :: "SyncEvent \<Rightarrow> SyncEvent \<Rightarrow> bool" where
  "outcome_of e h \<longleftrightarrow> h = e \<or> h = e\<lparr>processed := True\<rparr>"

text \<open>
  The running service with two receipts in its queue, the first of them the one whose
  handler raises.
\<close>

definition two_receipts :: bus where
  "two_receipts = (start sample_bus)\<lparr>event_queue := [receipt_text, receipt_ok]\<rparr>"

text \<open>The service started, an event emitted for \<open>u1\<close>, and one turn of the consumer.\<close>

definition goal_event :: SyncEvent where
  "goal_event =
     \<lparr>event_id = ''u'', event_type = GOAL_CREATED, user_id = ''u1'', data = [],
      timestamp = 0, processed = False, related_entities = Some []\<rparr>"

definition sample_run :: bus where
  "sample_run = consume sample_env (emit_event sample_env (start sample_bus) GOAL_CREATED ''u1'' [] None)"

section \<open>Properties of the anomaly detection agent\<close>

lemmas engine_defs =
  detect_anomalies_def DataFrame_def empty_df_def engineer_features_def
  ensure_columns_def convert_types_def has_amount_def has_category_def has_date_def
  to_numeric_fillna0_def to_datetime_def feat_of_def amount_of_def date_of_def hour_of_def
  run_multiple_detection_methods_def isolation_forest_detection_def
  statistical_outlier_detection_def zscore_detection_def business_rule_detection_def
  rule_large_amount_def rule_unusual_time_def rule_rapid_transactions_def
  sort_values_date_def date_key_def historical_amounts_def concat_ignore_index_def
  consolidate_anomalies_def unsorted_anomalies_def collect_by_index_def add_anomaly_def
  update_entry_def record_anomaly_def to_anomaly_def np_mean_def the_finite_def
  reverse_key_def severity_order_def iloc_def quantile_def py_div_def
  no_keys_def generate_insights_def summable_def

lemmas sample_defs = tx_def night_pair_def noon_tx_def night_tx_def no_amount_tx_def

subsection \<open>Confidence\<close>

text \<open>
  C1 (the code departs from it). The confidence of a consolidated anomaly is the number
  of raw flags of its index divided by the number of detectors. For the two
  transactions at 03:00 and 03:01 only the business rules flag anything, but they flag
  the second transaction twice (unusual hour, rapid succession): its confidence is
  2/4, not the 1/4 of one detector out of four.
\<close>

theorem confidence_counts_sub_rules:
  "run_multiple_detection_methods np forest
      (fst (engineer_features now (DataFrame night_pair) (DataFrame [])))
      (DataFrame ([] :: unit row list))
     = Inr [(''isolation_forest'', []), (''statistical'', []), (''zscore'', []),
            (''business_rules'',
               [\<lparr>an_index = 0, an_method = ''business_rule_unusual_time'',
                 an_score = Finite 1, an_severity = Medium\<rparr>,
                \<lparr>an_index = 1, an_method = ''business_rule_unusual_time'',
                 an_score = Finite 1, an_severity = Medium\<rparr>,
                \<lparr>an_index = 1, an_method = ''business_rule_rapid_transactions'',
                 an_score = Finite 1, an_severity = Medium\<rparr>])]
   \<and> map transaction_index (anomalies (detect_anomalies np forest now night_pair [])) = [0, 1]
   \<and> map confidence (anomalies (detect_anomalies np forest now night_pair [])) = [1 / 4, 1 / 2]"
  by (simp add: engine_defs sample_defs)

text \<open>
  Consolidation of five raw flags of one index, from three of the four detectors, gives
  the confidence 5/4.
\<close>

lemma confidence_above_one:
  "map confidence (consolidate_anomalies five_flags (DataFrame [noon_tx])) = [5 / 4]"
  by (simp add: engine_defs sample_defs five_flags_def)

subsection \<open>A detector that raises\<close>

text \<open>
  C3 (the code departs from it). With one current transaction and a history whose
  transactions have no amount, the business rules raise AttributeError, no detector's
  flags are consolidated, and the caller gets the report of the error.
\<close>

theorem detector_error_reaches_caller:
  "business_rule_detection
      (fst (engineer_features now (DataFrame [noon_tx]) (DataFrame [no_amount_tx])))
      (DataFrame [no_amount_tx]) = Inl AttributeError
   \<and> detect_anomalies np forest now [noon_tx] [no_amount_tx] = ErrorReport AttributeError"
  by (simp add: engine_defs sample_defs)

subsection \<open>Index and data of a consolidated anomaly\<close>

text \<open>
  C4 (the code departs from it). With the historical transaction of 03:00 and the
  current transaction of 12:00, the features frame has the historical transaction at
  label 0 and the current one at label 1. The only flag is the unusual hour of label 0,
  the historical transaction; the consolidated anomaly has index 0 and the data of the
  current transaction, which no detector flagged.
\<close>

theorem historical_flag_lands_on_current:
  "map fst (fst (engineer_features now (DataFrame [noon_tx]) (DataFrame [night_tx]))) = [0, 1]
   \<and> map (f_date \<circ> snd) (fst (engineer_features now (DataFrame [noon_tx]) (DataFrame [night_tx])))
       = [date_of (date night_tx), date_of (date noon_tx)]
   \<and> map (f_hour \<circ> snd) (fst (engineer_features now (DataFrame [noon_tx]) (DataFrame [night_tx])))
       = [Some 3, Some 12]
   \<and> map transaction_index (anomalies (detect_anomalies np forest now [noon_tx] [night_tx])) = [0]
   \<and> map transaction_data (anomalies (detect_anomalies np forest now [noon_tx] [night_tx]))
       = [noon_tx]
   \<and> map detection_methods (anomalies (detect_anomalies np forest now [noon_tx] [night_tx]))
       = [[''business_rule_unusual_time'']]"
  by (simp add: engine_defs sample_defs)

text \<open>
  Without a history the frame that is coerced is \<open>current_df\<close> itself: the data of an
  anomaly is the coerced row, here with the amount 0 for one that was not a number and
  with the category that was filled in.
\<close>

lemma reported_data_is_coerced:
  "map transaction_data (anomalies (detect_anomalies np forest now [bad_amount_tx] []))
     = [bad_amount_tx\<lparr>amount := Val 0, category := Val ''Unknown''\<rparr>]"
  by (simp add: engine_defs bad_amount_tx_def)

text \<open>
  With a history \<open>current_df\<close> is not coerced: when the data of an anomaly has a string
  for its amount, \<open>_generate_insights\<close> raises and the caller gets the report of the
  error.
\<close>

lemma string_amount_breaks_report:
  "detect_anomalies np forest now [text_amount_tx] [night_tx] = ErrorReport TypeError"
  by (simp add: engine_defs sample_defs text_amount_tx_def)

subsection \<open>The interquartile rule\<close>

lemma iqr_batch_quartiles:
  "Q1 exact iqr_batch = 2" "Q3 exact iqr_batch = 4" "IQR exact iqr_batch = 2"
  by (simp_all add: iqr_batch_def Q1_def Q3_def IQR_def amounts_def quantile_def amount_row_def
        exact_def)

lemma iqr_batch_bounds: "lower_bound exact iqr_batch = - 1" "upper_bound exact iqr_batch = 7"
  by (simp_all add: lower_bound_def upper_bound_def iqr_batch_quartiles) (simp_all add: exact_def)

lemma iqr_batch_no_flag: "statistical_outlier_detection exact iqr_batch = []"
  unfolding statistical_outlier_detection_def Let_def iqr_batch_bounds
  by (simp add: iqr_batch_def amount_row_def)

lemma outlier_batch_quartiles:
  "Q1 exact outlier_batch = 2" "Q3 exact outlier_batch = 4" "IQR exact outlier_batch = 2"
  by (simp_all add: outlier_batch_def Q1_def Q3_def IQR_def amounts_def quantile_def
        amount_row_def exact_def)

lemma outlier_batch_bounds:
  "lower_bound exact outlier_batch = - 1" "upper_bound exact outlier_batch = 7"
  by (simp_all add: lower_bound_def upper_bound_def outlier_batch_quartiles)
     (simp_all add: exact_def)

text \<open>
  C5, as stated, fails: in the batch 1, 2, 3, 4, 6, on which float64 computes without
  rounding, the amount 6 lies outside [Q1 - 1.5 IQR, Q1 + 1.5 IQR] = [-1, 5], and the
  detector does not flag it.
\<close>

theorem iqr_upper_fence_counterexample:
  "5 \<le> length iqr_batch
   \<and> f_amount (snd (iqr_batch ! 4))
       \<notin> {Q1 exact iqr_batch - 1.5 * IQR exact iqr_batch ..
          Q1 exact iqr_batch + 1.5 * IQR exact iqr_batch}
   \<and> 4 \<notin> set (map an_index (statistical_outlier_detection exact iqr_batch))"
  unfolding iqr_batch_no_flag iqr_batch_quartiles
  by (simp add: iqr_batch_def amount_row_def)

text \<open>
  C5, amended: for a frame of at least 5 rows and for whatever the float64 operations
  and the quantiles of pandas give, the detector flags, in the order of the frame,
  exactly the rows whose amount lies outside [\<open>lower_bound\<close>, \<open>upper_bound\<close>], the
  float64 values of Q1 - 1.5 IQR and Q3 + 1.5 IQR with IQR the float64 value of Q3 - Q1,
  and the severity of a flag is high exactly when the amount lies outside the float64
  values of Q1 - 3 IQR and Q3 + 3 IQR, else medium.
\<close>

theorem statistical_iqr_flags:
  assumes "5 \<le> length features_df"
  shows "map an_index (statistical_outlier_detection np features_df)
           = map fst (filter (\<lambda>(i, r). f_amount r \<notin> {lower_bound np features_df ..
                                                      upper_bound np features_df})
                        features_df)
         \<and> map an_severity (statistical_outlier_detection np features_df)
           = map (\<lambda>(i, r). if f_amount r
                                \<notin> {fl np (Q1 np features_df - fl np (3 * IQR np features_df)) ..
                                   fl np (Q3 np features_df + fl np (3 * IQR np features_df))}
                           then High else Medium)
               (filter (\<lambda>(i, r). f_amount r \<notin> {lower_bound np features_df ..
                                                 upper_bound np features_df})
                  features_df)
         \<and> lower_bound np features_df
             = fl np (Q1 np features_df - fl np (1.5 * fl np (Q3 np features_df - Q1 np features_df)))
         \<and> upper_bound np features_df
             = fl np (Q3 np features_df + fl np (1.5 * fl np (Q3 np features_df - Q1 np features_df)))"
proof -
  have len: "4 < length features_df"
    using assms by simp
  have fence: "(\<lambda>(idx, r). f_amount r < lower_bound np features_df
                        \<or> f_amount r > upper_bound np features_df)
             = (\<lambda>(i, r). f_amount r \<notin> {lower_bound np features_df .. upper_bound np features_df})"
    by (auto simp: fun_eq_iff)
  have flags: "map an_index (statistical_outlier_detection np features_df)
           = map fst (filter (\<lambda>(i, r). f_amount r \<notin> {lower_bound np features_df ..
                                                      upper_bound np features_df})
                        features_df)"
    using len unfolding statistical_outlier_detection_def Let_def fence
    by (simp add: o_def split_def)
  have sev: "map an_severity (statistical_outlier_detection np features_df)
           = map (\<lambda>(i, r). if f_amount r
                                \<notin> {fl np (Q1 np features_df - fl np (3 * IQR np features_df)) ..
                                   fl np (Q3 np features_df + fl np (3 * IQR np features_df))}
                           then High else Medium)
               (filter (\<lambda>(i, r). f_amount r \<notin> {lower_bound np features_df ..
                                                 upper_bound np features_df})
                  features_df)"
    using len unfolding statistical_outlier_detection_def Let_def fence
    by (auto simp: o_def split_def)
  show ?thesis
    using flags sev by (simp add: lower_bound_def upper_bound_def IQR_def)
qed

theorem statistical_iqr_flags_witness:
  "5 \<le> length outlier_batch
   \<and> map an_index (statistical_outlier_detection exact outlier_batch) = [4]
   \<and> map an_severity (statistical_outlier_detection exact outlier_batch) = [High]"
proof -
  have len: "5 \<le> length outlier_batch"
    by (simp add: outlier_batch_def)
  have outer: "fl exact x = x" for x
    by (simp add: exact_def)
  show ?thesis
    using len statistical_iqr_flags [OF len, of exact]
    unfolding outlier_batch_bounds outlier_batch_quartiles outer
    by (simp add: outlier_batch_def amount_row_def)
qed

subsection \<open>Ranking\<close>

lemma reverse_key_le: "reverse_key a \<le> reverse_key b \<longleftrightarrow> score_ge a b"
  by (cases a; cases b) (simp_all add: reverse_key_def score_ge_def)

lemma reverse_key_inj: "reverse_key a = reverse_key b \<longleftrightarrow> a = b"
  by (cases a; cases b) (simp_all add: reverse_key_def)

lemma keys_add_anomaly:
  "map fst (add_anomaly cur acc a)
     = (if an_index a \<notin> set (map fst acc) \<and> an_index a < length cur
        then map fst acc @ [an_index a] else map fst acc)"
  by (auto simp: add_anomaly_def Let_def update_entry_def o_def split_def)

lemma keys_fold:
  "map fst (fold (\<lambda>a acc. add_anomaly cur acc a) as acc)
     = map fst acc @ filter (\<lambda>i. i \<notin> set (map fst acc))
                       (first_seen (filter (\<lambda>i. i < length cur) (map an_index as)))"
proof (induction as arbitrary: acc)
  case Nil
  then show ?case by simp
next
  case (Cons a as)
  show ?case
  proof (cases "an_index a \<notin> set (map fst acc) \<and> an_index a < length cur")
    case True
    then show ?thesis
      by (simp add: Cons.IH keys_add_anomaly filter_filter del: set_map)
  next
    case False
    then show ?thesis
      by (simp add: Cons.IH keys_add_anomaly filter_filter del: set_map)
         (auto intro!: filter_cong)
  qed
qed

lemma keys_collect:
  "map fst (collect_by_index r cur)
     = first_seen (filter (\<lambda>i. i < length cur) (map an_index (concat (map snd r))))"
  unfolding collect_by_index_def by (simp add: keys_fold)

lemma index_unsorted:
  "map transaction_index (unsorted_anomalies r cur) = map fst (collect_by_index r cur)"
  by (simp add: unsorted_anomalies_def to_anomaly_def split_def o_def)

text \<open>
  C8. The consolidated list is in descending order of the composite score; the
  anomalies of any one score stand in it as they stand in the list before the sort;
  and that list has the transaction indices in the order in which consolidation met
  each of them first (among the flags whose index is within the current batch).
\<close>

theorem consolidated_sorted_stable:
  "sorted_wrt (\<lambda>a b. score_ge (composite_score a) (composite_score b))
     (consolidate_anomalies anomaly_results current_df)
   \<and> (\<forall>k. filter (\<lambda>a. composite_score a = k) (consolidate_anomalies anomaly_results current_df)
            = filter (\<lambda>a. composite_score a = k) (unsorted_anomalies anomaly_results current_df))
   \<and> map transaction_index (unsorted_anomalies anomaly_results current_df)
       = first_seen (filter (\<lambda>i. i < length current_df)
                       (map an_index (concat (map snd anomaly_results))))"
proof -
  let ?key = "\<lambda>x :: 'a anomaly. reverse_key (composite_score x)"
  let ?xs = "unsorted_anomalies anomaly_results current_df"
  have "sorted (map ?key (sort_key ?key ?xs))"
    by (rule sorted_sort_key)
  then have desc: "sorted_wrt (\<lambda>a b. score_ge (composite_score a) (composite_score b))
                     (sort_key ?key ?xs)"
    by (simp add: sorted_map reverse_key_le)
  have stable: "filter (\<lambda>a. composite_score a = k) (sort_key ?key ?xs)
                  = filter (\<lambda>a. composite_score a = k) ?xs" for k
    using sort_key_stable [of ?key "reverse_key k" ?xs] by (simp add: reverse_key_inj)
  show ?thesis
    unfolding consolidate_anomalies_def using desc stable
    by (simp add: index_unsorted keys_collect)
qed

section \<open>Properties of the synchronisation service\<close>

subsection \<open>What the calls leave unchanged\<close>

lemma emits_only_refl: "emits_only s s"
  by (simp add: emits_only_def)

lemma emits_only_trans: "emits_only a b \<Longrightarrow> emits_only b c \<Longrightarrow> emits_only a c"
  by (auto simp: emits_only_def)

lemma emits_only_emit: "emits_only s (emit_event env s ty uid d rel)"
  by (simp add: emits_only_def emit_event_def Let_def)

lemma emits_only_clock: "emits_only s (s\<lparr>clock_calls := n\<rparr>)"
  by (simp add: emits_only_def)

lemma emits_only_receipt:
  "handle_receipt_processed env s e = Inr s1 \<Longrightarrow> emits_only s s1"
  by (auto simp: handle_receipt_processed_def Let_def datetime_now_def
           split: if_splits sum.splits
           intro: emits_only_refl emits_only_trans [OF emits_only_clock emits_only_emit])

lemma emits_only_transaction: "emits_only s (handle_transaction_added env s e)"
  by (auto simp: handle_transaction_added_def Let_def update_budget_from_transaction_def
        update_goal_progress_from_transaction_def
        intro: emits_only_refl emits_only_emit emits_only_trans [OF emits_only_emit emits_only_emit])

lemma emits_only_goal: "emits_only s (handle_goal_progress_updated env s e)"
  by (auto simp: handle_goal_progress_updated_def Let_def intro: emits_only_refl emits_only_emit)

lemma emits_only_by_type:
  "process_event_by_type env s e = Inr s1 \<Longrightarrow> emits_only s s1"
  by (auto simp: process_event_by_type_def handle_budget_updated_def split: if_splits
           intro: emits_only_refl emits_only_receipt emits_only_transaction emits_only_goal)

lemma remove_ws_keeps:
  "event_queue (remove_websocket_connection s uid ws) = event_queue s"
  "trace (remove_websocket_connection s uid ws) = trace s"
  "running (remove_websocket_connection s uid ws) = running s"
  by (simp_all add: remove_websocket_connection_def split: option.splits)

lemma fold_remove_keeps:
  "event_queue (fold (\<lambda>ws st. remove_websocket_connection st uid ws) l s) = event_queue s"
  "trace (fold (\<lambda>ws st. remove_websocket_connection st uid ws) l s) = trace s"
  "running (fold (\<lambda>ws st. remove_websocket_connection st uid ws) l s) = running s"
  by (induction l arbitrary: s) (simp_all add: remove_ws_keeps)

lemma send_keeps:
  "event_queue (send_realtime_updates env s e) = event_queue s"
  "running (send_realtime_updates env s e) = running s"
  by (simp_all add: send_realtime_updates_def Let_def fold_remove_keeps split: option.splits)

lemma send_trace:
  "trace (send_realtime_updates env s e)
     = trace s @ map (\<lambda>ws. Sent (ws_id ws) (wire_message env e) (ws_fails ws (wire_message env e)))
                   (connections_of s (user_id e))"
  by (simp add: send_realtime_updates_def Let_def fold_remove_keeps connections_of_def
           split: option.splits)

lemma notify_keeps:
  "event_queue (notify_subscribers s e) = event_queue s"
  "running (notify_subscribers s e) = running s"
  "active_connections (notify_subscribers s e) = active_connections s"
  by (simp_all add: notify_subscribers_def)

lemmas bus_defs = sample_bus_def init_def subscribe_def add_websocket_connection_def
  listener_def socket_def broken_socket_def Let_def
lemmas handler_defs = handle_event_def process_event_by_type_def handle_receipt_processed_def
  dict_get_def get_method_def datetime_now_def emit_event_def or_empty_def
  notify_subscribers_def subscribers_of_def send_realtime_updates_def connections_of_def
  remove_websocket_connection_def
lemmas event_defs = receipt_event_def receipt_ok_def receipt_no_total_def receipt_failed_def
  receipt_text_def parsed_ok_def parsed_no_total_def

subsection \<open>The stages of handling one event\<close>

text \<open>
  C2, as stated, fails: the receipt whose \<open>parsed_data\<close> is a text makes the
  kind-specific logic raise. The service has a subscriber of the kind and two sockets of
  the user, but the only effect of handling the event is the logged error: no callback
  is called, no message is sent, and the event is not marked processed.
\<close>

theorem handler_error_skips_stages_counterexample:
  "isl (process_event_by_type sample_env sample_bus receipt_text)
   \<and> subscribers_of sample_bus receipt_text = [listener]
   \<and> connections_of sample_bus (user_id receipt_text) = [broken_socket, socket]
   \<and> trace (fst (handle_event sample_env sample_bus receipt_text)) = [HandlerError ''e1'']
   \<and> \<not> processed (snd (handle_event sample_env sample_bus receipt_text))"
  by (simp add: bus_defs handler_defs event_defs)

lemma handle_event_effects:
  "(isl (process_event_by_type env s e) \<longrightarrow>
      handle_event env s e = (s\<lparr>trace := trace s @ [HandlerError (event_id e)]\<rparr>, e))
   \<and> (\<not> isl (process_event_by_type env s e) \<longrightarrow>
        trace (fst (handle_event env s e))
          = trace s
            @ map (\<lambda>cb. Notified (cb_id cb) e (cb_raises cb e)) (subscribers_of s e)
            @ map (\<lambda>ws. Sent (ws_id ws) (wire_message env e) (ws_fails ws (wire_message env e)))
                (connections_of s (user_id e))
        \<and> processed (snd (handle_event env s e)))
   \<and> running (fst (handle_event env s e)) = running s
   \<and> (\<exists>new. event_queue (fst (handle_event env s e)) = event_queue s @ new)"
proof (cases "process_event_by_type env s e")
  case (Inl x')
  then show ?thesis by (simp add: handle_event_def)
next
  case (Inr s1')
  then have eo: "emits_only s s1'" by (rule emits_only_by_type)
  then have same: "trace s1' = trace s" "subscribers s1' = subscribers s"
      "active_connections s1' = active_connections s" "running s1' = running s"
    by (simp_all add: emits_only_def)
  from eo obtain new where new: "event_queue s1' = event_queue s @ new"
    by (auto simp: emits_only_def)
  have subs: "subscribers_of s1' e = subscribers_of s e"
    by (simp add: subscribers_of_def same)
  have conns: "connections_of (notify_subscribers s1' e) (user_id e) = connections_of s (user_id e)"
    by (simp add: connections_of_def notify_keeps same)
  have tr: "trace (notify_subscribers s1' e)
             = trace s @ map (\<lambda>cb. Notified (cb_id cb) e (cb_raises cb e)) (subscribers_of s e)"
    by (simp add: notify_subscribers_def same subs)
  show ?thesis
    using Inr new
    by (simp add: handle_event_def Let_def send_trace send_keeps notify_keeps tr conns same)
qed

lemma handled_events_append: "handled_events (a @ b) = handled_events a @ handled_events b"
  by (simp add: handled_events_def)

lemma handle_event_running: "running (fst (handle_event env s e)) = running s"
proof (cases "process_event_by_type env s e")
  case (Inl x)
  then show ?thesis by (simp add: handle_event_def)
next
  case (Inr s1)
  then have "emits_only s s1" by (rule emits_only_by_type)
  with Inr show ?thesis
    by (simp add: handle_event_def Let_def send_keeps notify_keeps emits_only_def)
qed

lemma handle_event_no_handled:
  "\<exists>t. trace (fst (handle_event env s e)) = trace s @ t \<and> handled_events t = []"
proof (cases "process_event_by_type env s e")
  case (Inl x)
  then show ?thesis by (simp add: handle_event_def handled_events_def)
next
  case (Inr s1)
  then have "emits_only s s1" by (rule emits_only_by_type)
  then have "trace s1 = trace s" by (simp add: emits_only_def)
  with Inr show ?thesis
    by (auto simp: handle_event_def Let_def send_trace notify_subscribers_def handled_events_def
          o_def)
qed

lemma handle_event_outcome: "outcome_of e (snd (handle_event env s e))"
  by (cases "process_event_by_type env s e") (simp_all add: handle_event_def Let_def outcome_of_def)

lemma handle_event_extends:
  "\<exists>new. event_queue (fst (handle_event env s e)) = event_queue s @ new"
proof (cases "process_event_by_type env s e")
  case (Inl x)
  then show ?thesis by (simp add: handle_event_def)
next
  case (Inr s1)
  then have "emits_only s s1" by (rule emits_only_by_type)
  with Inr show ?thesis
    by (auto simp: handle_event_def Let_def send_keeps notify_keeps emits_only_def)
qed

lemma consume_running: "running (consume env s) = running s"
  by (cases "event_queue s")
     (simp_all add: consume_def split_def handle_event_running)

lemma consume_queue:
  assumes "event_queue s = e # q"
  shows "\<exists>new. event_queue (consume env s) = q @ new"
  using assms handle_event_extends [of env "s\<lparr>event_queue := q\<rparr>" e]
  by (auto simp: consume_def split_def)

lemma consume_trace:
  assumes "event_queue s = e # q"
  shows "\<exists>t h. trace (consume env s) = trace s @ t @ [Handled h]
               \<and> handled_events t = [] \<and> outcome_of e h"
proof -
  obtain t where t: "trace (fst (handle_event env (s\<lparr>event_queue := q\<rparr>) e)) = trace s @ t"
      "handled_events t = []"
    using handle_event_no_handled [of env "s\<lparr>event_queue := q\<rparr>" e] by auto
  have "trace (consume env s)
          = trace s @ t @ [Handled (snd (handle_event env (s\<lparr>event_queue := q\<rparr>) e))]"
    using assms t by (simp add: consume_def split_def)
  with t handle_event_outcome show ?thesis by blast
qed

lemma process_events_running: "running s \<Longrightarrow> running (process_events env n s)"
  by (induction n arbitrary: s) (simp_all add: consume_running)

lemma process_events_handles:
  "running s \<Longrightarrow> event_queue s = es @ r \<Longrightarrow>
     \<exists>t new. trace (process_events env (length es) s) = trace s @ t
            \<and> list_all2 outcome_of es (handled_events t)
            \<and> event_queue (process_events env (length es) s) = r @ new"
proof (induction es arbitrary: s r)
  case Nil
  then show ?case by (simp add: handled_events_def)
next
  case (Cons e es)
  let ?s1 = "consume env s"
  from Cons.prems have q: "event_queue s = e # (es @ r)" by simp
  obtain new where new: "event_queue ?s1 = es @ (r @ new)"
    using consume_queue [OF q, of env] by auto
  obtain t1 h where t1: "trace ?s1 = trace s @ t1 @ [Handled h]" "handled_events t1 = []"
      "outcome_of e h"
    using consume_trace [OF q, of env] by blast
  have run: "running ?s1" using Cons.prems by (simp add: consume_running)
  obtain t2 new2 where t2: "trace (process_events env (length es) ?s1) = trace ?s1 @ t2"
      "list_all2 outcome_of es (handled_events t2)"
      "event_queue (process_events env (length es) ?s1) = (r @ new) @ new2"
    using Cons.IH [OF run new] by blast
  have h: "handled_events (t1 @ [Handled h] @ t2) = h # handled_events t2"
    using t1(2) by (simp add: handled_events_append) (simp add: handled_events_def)
  show ?case
    using Cons.prems(1) t1 t2 h
    by (intro exI [of _ "t1 @ [Handled h] @ t2"] exI [of _ "new @ new2"]) simp
qed

lemma two_receipts_run:
  "handled_events (trace (process_events sample_env 2 two_receipts))
     = [receipt_text, receipt_ok\<lparr>processed := True\<rparr>]"
  by (simp add: eval_nat_numeral two_receipts_def consume_def start_def bus_defs handler_defs
        event_defs handled_events_def)


lemma two_receipts_first:
  "event_queue (consume sample_env two_receipts) = [receipt_ok]"
  by (simp add: two_receipts_def consume_def start_def bus_defs handler_defs event_defs)

text \<open>
  C2, amended. When the kind-specific logic raises, the one \<open>try\<close> of the handler
  catches it: the error is logged, the later stages are skipped and the event stays
  unprocessed. When it does not raise, every callback subscribed to the kind is called
  and every socket of the user is sent the message, in their order, whichever of them
  raise, and the event is marked processed. In both cases the consumer loop goes on: a
  turn of the loop leaves the service running and keeps the rest of the queue, the loop
  of a running service stays running, and in as many turns as the queue has events
  every one of them leaves the handler, in the order of the queue.
\<close>

theorem handle_event_stages:
  "(isl (process_event_by_type env s e) \<longrightarrow>
      handle_event env s e = (s\<lparr>trace := trace s @ [HandlerError (event_id e)]\<rparr>, e))
   \<and> (\<not> isl (process_event_by_type env s e) \<longrightarrow>
        trace (fst (handle_event env s e))
          = trace s
            @ map (\<lambda>cb. Notified (cb_id cb) e (cb_raises cb e)) (subscribers_of s e)
            @ map (\<lambda>ws. Sent (ws_id ws) (wire_message env e) (ws_fails ws (wire_message env e)))
                (connections_of s (user_id e))
        \<and> processed (snd (handle_event env s e)))
   \<and> running (fst (handle_event env s e)) = running s
   \<and> (\<exists>new. event_queue (fst (handle_event env s e)) = event_queue s @ new)
   \<and> running (consume env s) = running s
   \<and> (event_queue s = e # q \<longrightarrow> (\<exists>new. event_queue (consume env s) = q @ new))
   \<and> (running s \<longrightarrow> running (process_events env n s))
   \<and> (running s \<longrightarrow>
        (\<exists>t. trace (process_events env (length (event_queue s)) s) = trace s @ t
            \<and> list_all2 outcome_of (event_queue s) (handled_events t)))"
proof -
  have loop: "\<exists>t. trace (process_events env (length (event_queue s)) s) = trace s @ t
            \<and> list_all2 outcome_of (event_queue s) (handled_events t)" if "running s"
    using process_events_handles [OF that, of "event_queue s" "[]" env] by auto
  show ?thesis
    using handle_event_effects [of env s e] loop
    by (auto simp: consume_running process_events_running dest: consume_queue)
qed

theorem handle_event_stages_witness:
  "isl (process_event_by_type sample_env sample_bus receipt_text)
   \<and> handle_event sample_env sample_bus receipt_text
       = (sample_bus\<lparr>trace := trace sample_bus @ [HandlerError (event_id receipt_text)]\<rparr>,
          receipt_text)
   \<and> \<not> isl (process_event_by_type sample_env sample_bus receipt_ok)
   \<and> trace (fst (handle_event sample_env sample_bus receipt_ok))
       = [Notified 1 receipt_ok True,
          Sent 8 (wire_message sample_env receipt_ok) True,
          Sent 7 (wire_message sample_env receipt_ok) False]
   \<and> processed (snd (handle_event sample_env sample_bus receipt_ok))
   \<and> running two_receipts
   \<and> event_queue two_receipts = receipt_text # [receipt_ok]
   \<and> running (consume sample_env two_receipts)
   \<and> event_queue (consume sample_env two_receipts) = [receipt_ok]
   \<and> running (process_events sample_env 2 two_receipts)
   \<and> handled_events (trace (process_events sample_env 2 two_receipts))
       = [receipt_text, receipt_ok\<lparr>processed := True\<rparr>]"
proof -
  have a: "isl (process_event_by_type sample_env sample_bus receipt_text)"
    by (simp add: handler_defs event_defs)
  have b: "\<not> isl (process_event_by_type sample_env sample_bus receipt_ok)"
    by (simp add: handler_defs event_defs)
  have t: "trace sample_bus = []"
    by (simp add: bus_defs)
  have su: "subscribers_of sample_bus receipt_ok = [listener]"
    by (simp add: bus_defs subscribers_of_def event_defs)
  have co: "connections_of sample_bus (user_id receipt_ok) = [broken_socket, socket]"
    by (simp add: bus_defs connections_of_def event_defs)
  have r: "running two_receipts"
    by (simp add: two_receipts_def start_def bus_defs)
  have q: "event_queue two_receipts = receipt_text # [receipt_ok]"
    by (simp add: two_receipts_def)
  have stages: "handle_event sample_env sample_bus receipt_text
       = (sample_bus\<lparr>trace := trace sample_bus @ [HandlerError (event_id receipt_text)]\<rparr>,
          receipt_text)
     \<and> trace (fst (handle_event sample_env sample_bus receipt_ok))
       = [Notified 1 receipt_ok True,
          Sent 8 (wire_message sample_env receipt_ok) True,
          Sent 7 (wire_message sample_env receipt_ok) False]
     \<and> processed (snd (handle_event sample_env sample_bus receipt_ok))"
    using a b handle_event_stages [where env = sample_env and s = sample_bus and e = receipt_text]
      handle_event_stages [where env = sample_env and s = sample_bus and e = receipt_ok]
    by (simp add: t su co listener_def socket_def broken_socket_def)
  have loop: "running (consume sample_env two_receipts)
     \<and> running (process_events sample_env 2 two_receipts)"
    using r handle_event_stages [where env = sample_env and s = two_receipts and n = 2]
    by simp
  show ?thesis
    using a b r q stages loop by (simp add: two_receipts_first two_receipts_run)
qed

subsection \<open>The cascade of a processed receipt\<close>

text \<open>
  C6, as stated, fails: a successful receipt whose parsed data has no \<open>total\<close> still
  makes the service emit one transaction-added event, with the amount 0.
\<close>

theorem missing_total_cascades_counterexample:
  "event_type receipt_no_total = RECEIPT_PROCESSED
   \<and> dict_get (data receipt_no_total) ''parsed_data'' PNone = PDict parsed_no_total
   \<and> map_of parsed_no_total ''total'' = None
   \<and> event_queue sample_bus = []
   \<and> map event_type (event_queue (fst (handle_event sample_env sample_bus receipt_no_total)))
       = [TRANSACTION_ADDED]
   \<and> map data (event_queue (fst (handle_event sample_env sample_bus receipt_no_total)))
       = [[(''amount'', PNum 0), (''category'', PStr ''Groceries''),
           (''description'', PStr ''Receipt from Acme''), (''date'', PStr ''2024-01-05''),
           (''type'', PStr ''expense''), (''receipt_id'', PNone), (''receipt_url'', PNone)]]"
  by (simp add: bus_defs handler_defs event_defs send_keeps notify_keeps sample_env_def)

text \<open>
  C6, amended: handling a receipt-processed event whose \<open>success\<close> is absent or falsy,
  or whose \<open>parsed_data\<close> is absent or falsy (empty), emits no event, and the event is
  marked processed.
\<close>

theorem receipt_no_cascade:
  assumes "event_type e = RECEIPT_PROCESSED"
    and "\<not> truthy (dict_get (data e) ''success'' PNone)
         \<or> \<not> truthy (dict_get (data e) ''parsed_data'' PNone)"
  shows "event_queue (fst (handle_event env s e)) = event_queue s
         \<and> processed (snd (handle_event env s e))"
  using assms
  by (auto simp: handle_event_def process_event_by_type_def handle_receipt_processed_def
        Let_def send_keeps notify_keeps)



theorem receipt_no_cascade_witness:
  "event_type receipt_failed = RECEIPT_PROCESSED
   \<and> \<not> truthy (dict_get (data receipt_failed) ''success'' PNone)
   \<and> event_queue (fst (handle_event sample_env sample_bus receipt_failed)) = event_queue sample_bus
   \<and> processed (snd (handle_event sample_env sample_bus receipt_failed))"
proof -
  have a: "event_type receipt_failed = RECEIPT_PROCESSED"
    by (simp add: event_defs)
  have b: "\<not> truthy (dict_get (data receipt_failed) ''success'' PNone)"
    by (simp add: event_defs dict_get_def)
  then have c: "\<not> truthy (dict_get (data receipt_failed) ''success'' PNone)
        \<or> \<not> truthy (dict_get (data receipt_failed) ''parsed_data'' PNone)"
    by simp
  show ?thesis
    using a b receipt_no_cascade [OF a c, of sample_env sample_bus] by simp
qed

text \<open>
  C7. Handling a receipt-processed event whose \<open>success\<close> is \<open>True\<close> and whose parsed
  data has a total, a category, a vendor and a date emits exactly one event: a
  transaction-added event of the same user, whose amount is the total, whose category is
  the category, with the related entities budget and goal.
\<close>

theorem receipt_cascade:
  assumes "event_type e = RECEIPT_PROCESSED"
    and "map_of (data e) ''success'' = Some (PBool True)"
    and "map_of (data e) ''parsed_data'' = Some (PDict parsed)"
    and "map_of parsed ''total'' = Some amt"
    and "map_of parsed ''category'' = Some cat"
    and "map_of parsed ''vendor'' = Some vendor"
    and "map_of parsed ''date'' = Some day"
  shows "\<exists>ev. event_queue (fst (handle_event env s e)) = event_queue s @ [ev]
              \<and> event_type ev = TRANSACTION_ADDED
              \<and> user_id ev = user_id e
              \<and> map_of (data ev) ''amount'' = Some amt
              \<and> map_of (data ev) ''category'' = Some cat
              \<and> related_entities ev = Some [''budget'', ''goal'']"
proof -
  from assms(4) have ne: "parsed \<noteq> []" by auto
  show ?thesis
    using assms ne
    by (simp add: handle_event_def process_event_by_type_def handle_receipt_processed_def
          Let_def dict_get_def get_method_def datetime_now_def emit_event_def or_empty_def
          send_keeps notify_keeps)
qed

theorem receipt_cascade_witness:
  "event_type receipt_ok = RECEIPT_PROCESSED
   \<and> map_of (data receipt_ok) ''success'' = Some (PBool True)
   \<and> map_of (data receipt_ok) ''parsed_data'' = Some (PDict parsed_ok)
   \<and> map_of parsed_ok ''total'' = Some (PNum 42.5)
   \<and> map_of parsed_ok ''category'' = Some (PStr ''Groceries'')
   \<and> map_of parsed_ok ''vendor'' = Some (PStr ''Acme'')
   \<and> map_of parsed_ok ''date'' = Some (PStr ''2024-01-05'')
   \<and> (\<exists>ev. event_queue (fst (handle_event sample_env sample_bus receipt_ok))
              = event_queue sample_bus @ [ev]
            \<and> event_type ev = TRANSACTION_ADDED
            \<and> user_id ev = user_id receipt_ok
            \<and> map_of (data ev) ''amount'' = Some (PNum 42.5)
            \<and> map_of (data ev) ''category'' = Some (PStr ''Groceries'')
            \<and> related_entities ev = Some [''budget'', ''goal''])"
proof -
  have a: "event_type receipt_ok = RECEIPT_PROCESSED"
    and b: "map_of (data receipt_ok) ''success'' = Some (PBool True)"
    and c: "map_of (data receipt_ok) ''parsed_data'' = Some (PDict parsed_ok)"
    and d: "map_of parsed_ok ''total'' = Some (PNum 42.5)"
    and e: "map_of parsed_ok ''category'' = Some (PStr ''Groceries'')"
    and f: "map_of parsed_ok ''vendor'' = Some (PStr ''Acme'')"
    and g: "map_of parsed_ok ''date'' = Some (PStr ''2024-01-05'')"
    by (simp_all add: event_defs)
  show ?thesis
    using a b c d e f g receipt_cascade [OF a b c d e f g, of sample_env sample_bus] by simp
qed

subsection \<open>Messages carry an unprocessed event\<close>

lemma handle_event_queue:
  "\<exists>new. event_queue (fst (handle_event env s e)) = event_queue s @ new
         \<and> list_all (\<lambda>e. \<not> processed e) new"
proof (cases "process_event_by_type env s e")
  case (Inl x)
  then show ?thesis by (simp add: handle_event_def)
next
  case (Inr s1)
  then have "emits_only s s1" by (rule emits_only_by_type)
  with Inr show ?thesis
    by (auto simp: handle_event_def Let_def send_keeps notify_keeps emits_only_def)
qed

lemma wire_processed_message: "wire_processed (wire_message env e) = Some (PBool (processed e))"
  by (simp add: wire_processed_def wire_message_def to_dict_def)

lemma handle_event_trace:
  assumes "\<not> processed e"
  shows "\<exists>new. trace (fst (handle_event env s e)) = trace s @ new \<and> list_all sent_unprocessed new"
proof (cases "process_event_by_type env s e")
  case (Inl x)
  then show ?thesis by (simp add: handle_event_def sent_unprocessed_def)
next
  case (Inr s1)
  then have "emits_only s s1" by (rule emits_only_by_type)
  then have "trace s1 = trace s" by (simp add: emits_only_def)
  with Inr assms show ?thesis
    by (auto simp: handle_event_def Let_def send_trace notify_subscribers_def
          list_all_iff sent_unprocessed_def wire_processed_message)
qed

lemma inv_consume: assumes "bus_inv s" shows "bus_inv (consume env s)"
proof (cases "event_queue s")
  case Nil
  with assms show ?thesis by (simp add: consume_def)
next
  case (Cons e rest)
  let ?s0 = "s\<lparr>event_queue := rest\<rparr>"
  from assms Cons have e: "\<not> processed e" and rest: "list_all (\<lambda>e. \<not> processed e) rest"
    and tr: "list_all sent_unprocessed (trace s)"
    by (simp_all add: bus_inv_def)
  obtain newq where q: "event_queue (fst (handle_event env ?s0 e)) = rest @ newq"
      "list_all (\<lambda>e. \<not> processed e) newq"
    using handle_event_queue [of env ?s0 e] by auto
  obtain newt where t: "trace (fst (handle_event env ?s0 e)) = trace s @ newt"
      "list_all sent_unprocessed newt"
    using handle_event_trace [OF e, of env ?s0] by auto
  show ?thesis
    using Cons q t rest tr
    by (simp add: consume_def split_def bus_inv_def sent_unprocessed_def)
qed

lemma inv_reachable: "reachable env s \<Longrightarrow> bus_inv s"
proof (induction rule: reachable.induct)
  case r_init
  then show ?case by (simp add: bus_inv_def init_def)
next
  case (r_start s)
  then show ?case by (simp add: bus_inv_def start_def)
next
  case (r_stop s)
  then show ?case by (simp add: bus_inv_def stop_def)
next
  case (r_emit s ty uid d rel)
  then show ?case by (simp add: bus_inv_def emit_event_def Let_def)
next
  case (r_subscribe s ty cb)
  then show ?case by (simp add: bus_inv_def subscribe_def Let_def)
next
  case (r_add s uid ws)
  then show ?case by (simp add: bus_inv_def add_websocket_connection_def Let_def)
next
  case (r_remove s uid ws)
  then show ?case by (simp add: bus_inv_def remove_ws_keeps)
next
  case (r_consume s)
  then show ?case by (simp add: inv_consume)
qed

lemma sample_run_trace:
  "trace sample_run = [Notified 1 goal_event True, Sent 8 (wire_message sample_env goal_event) True,
      Sent 7 (wire_message sample_env goal_event) False, Handled (goal_event\<lparr>processed := True\<rparr>)]"
  by (simp add: sample_run_def consume_def start_def bus_defs handler_defs goal_event_def sample_env_def)

lemma sample_run_conns: "active_connections sample_run ''u1'' = Some [socket]"
  by (simp add: sample_run_def consume_def start_def bus_defs handler_defs goal_event_def sample_env_def)

text \<open>
  C10. In every state of the service, every message that was handed to a socket has an
  event object whose \<open>processed\<close> is \<open>False\<close>.
\<close>

theorem delivered_unprocessed:
  "reachable env s \<Longrightarrow> Sent c m failed \<in> set (trace s) \<Longrightarrow> wire_processed m = Some (PBool False)"
proof -
  assume "reachable env s" and mem: "Sent c m failed \<in> set (trace s)"
  then have "list_all sent_unprocessed (trace s)"
    using inv_reachable by (simp add: bus_inv_def)
  with mem have "sent_unprocessed (Sent c m failed)"
    by (simp add: list_all_iff)
  then show ?thesis by (simp add: sent_unprocessed_def)
qed

theorem delivered_unprocessed_witness:
  "reachable sample_env sample_run
   \<and> Sent 7 (wire_message sample_env goal_event) False \<in> set (trace sample_run)
   \<and> wire_processed (wire_message sample_env goal_event) = Some (PBool False)"
proof -
  have r: "reachable sample_env sample_run"
    unfolding sample_run_def sample_bus_def
    by (intro reachable.intros) (simp add: start_def emit_event_def bus_defs)
  have m: "Sent 7 (wire_message sample_env goal_event) False \<in> set (trace sample_run)"
    by (simp add: sample_run_trace)
  show ?thesis using r m delivered_unprocessed [OF r m] by simp
qed

end
